theory Spec2Isabelle
  imports Main
begin

section \<open>Data model\<close>

text \<open>
  The subscription, plan and transaction documents of
  \<^verbatim>\<open>src/models/subscriptionModel.js\<close>,
  \<^verbatim>\<open>src/models/subscriptionPlanModel.js\<close> and
  \<^verbatim>\<open>src/models/transactionModel.js\<close>.
  A JavaScript \<^verbatim>\<open>Number\<close> that counts sessions or money is an \<open>int\<close>;
  a \<^verbatim>\<open>Date\<close> is its time value, the milliseconds since the epoch, also an \<open>int\<close>;
  a field that may be \<^verbatim>\<open>null\<close> or absent is an \<open>option\<close>.
  Object ids are natural numbers.
\<close>

datatype sub_status = S_active | S_expired | S_cancelled | S_pending

datatype duration_unit = Days | Weeks | Months | Years

record duration =
  dvalue :: int
  dunit :: duration_unit

record price =
  p_amount :: int
  p_currency :: string

record subscriptionPlan =
  duration :: duration
  price :: price
  maxSessions :: "int option"

text \<open>
  The subscription document. \<open>isNew\<close> is the flag the persistence library keeps on a
  document: true until its first save. The fields no claim reads (autoRenew,
  paymentStatus, amountPaid, notes, ...) live in the record's extension part, so every
  statement below holds for documents that carry them.
\<close>

record subscription =
  sub_id :: nat
  student :: nat
  plan :: nat
  startDate :: "int option"
  endDate :: "int option"
  status :: sub_status
  remainingSessions :: "int option"
  cancelledAt :: "int option"
  cancelReason :: "string option"
  isNew :: bool

text \<open>
  What the source throws. The first four are its \<^verbatim>\<open>new Error(message)\<close>s:
  "Subscription plan not found", "Transaction not found", "Only completed transactions
  can be refunded" and "Refund amount cannot exceed the original transaction amount".
  \<open>StorageRejected\<close> is the persistence library refusing a write: schema validation (a
  required path missing, a value that does not cast), a unique index, or an update of a
  document that is not in the collection. \<open>TypeError\<close> is a property read on null or
  undefined.
\<close>

datatype error =
  SubscriptionPlanNotFound
  | TransactionNotFound
  | OnlyCompletedCanBeRefunded
  | RefundExceedsOriginal
  | StorageRejected
  | TypeError

section \<open>JavaScript dates\<close>

text \<open>
  The \<^verbatim>\<open>Date\<close> operations the source calls, after the ECMAScript definitions
  (Day, TimeWithinDay, DayFromYear, YearFromTime, MonthFromTime, DateFromTime, MakeDay,
  MakeDate), with the local time zone taken to be UTC and every date valid.
\<close>

definition msPerDay :: int where
  "msPerDay = 86400000"

definition Day :: "int \<Rightarrow> int" where
  "Day t = t div msPerDay"

definition TimeWithinDay :: "int \<Rightarrow> int" where
  "TimeWithinDay t = t mod msPerDay"

definition DayFromYear :: "int \<Rightarrow> int" where
  "DayFromYear y =
     365 * (y - 1970) + (y - 1969) div 4 - (y - 1901) div 100 + (y - 1601) div 400"

definition leapYear :: "int \<Rightarrow> bool" where
  "leapYear y = (y mod 4 = 0 \<and> (y mod 100 \<noteq> 0 \<or> y mod 400 = 0))"

definition YearFromTime :: "int \<Rightarrow> int" where
  "YearFromTime t =
     (let d = Day t; e = 1970 + (400 * d) div 146097
      in if DayFromYear (e + 1) \<le> d then e + 1
         else if DayFromYear e \<le> d then e
         else e - 1)"

definition DayWithinYear :: "int \<Rightarrow> int" where
  "DayWithinYear t = Day t - DayFromYear (YearFromTime t)"

definition monthStart :: "bool \<Rightarrow> int \<Rightarrow> int" where
  "monthStart leap m =
     (if m = 0 then 0
      else if m = 1 then 31
      else (if leap then 1 else 0) +
        (if m = 2 then 59 else if m = 3 then 90 else if m = 4 then 120
         else if m = 5 then 151 else if m = 6 then 181 else if m = 7 then 212
         else if m = 8 then 243 else if m = 9 then 273 else if m = 10 then 304
         else 334))"

definition MonthFromTime :: "int \<Rightarrow> int" where
  "MonthFromTime t =
     (let d = DayWithinYear t; l = (if leapYear (YearFromTime t) then 1 else 0)
      in if d < 31 then 0
         else if d < 59 + l then 1
         else if d < 90 + l then 2
         else if d < 120 + l then 3
         else if d < 151 + l then 4
         else if d < 181 + l then 5
         else if d < 212 + l then 6
         else if d < 243 + l then 7
         else if d < 273 + l then 8
         else if d < 304 + l then 9
         else if d < 334 + l then 10
         else 11)"

definition DateFromTime :: "int \<Rightarrow> int" where
  "DateFromTime t =
     DayWithinYear t - monthStart (leapYear (YearFromTime t)) (MonthFromTime t) + 1"

definition MakeDay :: "int \<Rightarrow> int \<Rightarrow> int \<Rightarrow> int" where
  "MakeDay year month date =
     (let ym = year + month div 12; mn = month mod 12
      in DayFromYear ym + monthStart (leapYear ym) mn + date - 1)"

definition MakeDate :: "int \<Rightarrow> int \<Rightarrow> int" where
  "MakeDate day time = day * msPerDay + time"

definition getDate :: "int \<Rightarrow> int" where
  "getDate t = DateFromTime t"

definition getMonth :: "int \<Rightarrow> int" where
  "getMonth t = MonthFromTime t"

definition getFullYear :: "int \<Rightarrow> int" where
  "getFullYear t = YearFromTime t"

definition setDate :: "int \<Rightarrow> int \<Rightarrow> int" where
  "setDate t dt = MakeDate (MakeDay (YearFromTime t) (MonthFromTime t) dt) (TimeWithinDay t)"

definition setMonth :: "int \<Rightarrow> int \<Rightarrow> int" where
  "setMonth t m = MakeDate (MakeDay (YearFromTime t) m (DateFromTime t)) (TimeWithinDay t)"

definition setFullYear :: "int \<Rightarrow> int \<Rightarrow> int" where
  "setFullYear t y = MakeDate (MakeDay y (MonthFromTime t) (DateFromTime t)) (TimeWithinDay t)"

text \<open>
  \<^verbatim>\<open>Date.UTC(year, month, date)\<close>: the time value of midnight on a calendar day
  (month counted from 0), used to write down concrete dates.
\<close>

definition utc :: "int \<Rightarrow> int \<Rightarrow> int \<Rightarrow> int" where
  "utc year month date = MakeDate (MakeDay year month date) 0"

section \<open>Subscriptions\<close>

subsection \<open>The pre-save hook\<close>

text \<open>
  \<^verbatim>\<open>subscriptionSchema.pre('save', ...)\<close>: for a new document without an end date, look
  the plan up, compute the end date from the start date (or the current time \<open>now\<close>) and
  the plan's duration, and copy the plan's \<open>maxSessions\<close> when it is truthy (neither
  null nor 0). \<open>plans\<close> is the plan collection.
\<close>

definition truthy :: "int option \<Rightarrow> bool" where
  "truthy v = (case v of None \<Rightarrow> False | Some n \<Rightarrow> n \<noteq> 0)"

definition addDuration :: "duration \<Rightarrow> int \<Rightarrow> int" where
  "addDuration d t =
     (case dunit d of
        Days \<Rightarrow> setDate t (getDate t + dvalue d)
      | Weeks \<Rightarrow> setDate t (getDate t + dvalue d * 7)
      | Months \<Rightarrow> setMonth t (getMonth t + dvalue d)
      | Years \<Rightarrow> setFullYear t (getFullYear t + dvalue d))"

definition pre_save ::
  "(nat \<rightharpoonup> subscriptionPlan) \<Rightarrow> int \<Rightarrow> 'a subscription_scheme \<Rightarrow> error + 'a subscription_scheme"
where
  "pre_save plans now s =
     (if isNew s \<and> endDate s = None then
        (case plans (plan s) of
           None \<Rightarrow> Inl SubscriptionPlanNotFound
         | Some p \<Rightarrow>
             let start = (case startDate s of Some d \<Rightarrow> d | None \<Rightarrow> now);
                 s1 = s\<lparr>endDate := Some (addDuration (duration p) start)\<rparr>
             in Inr (if truthy (maxSessions p)
                     then s1\<lparr>remainingSessions := maxSessions p\<rparr>
                     else s1))
      else Inr s)"

subsection \<open>Saving a document\<close>

text \<open>
  \<^verbatim>\<open>doc.save()\<close>: the library validates the document, then runs the pre-save hook,
  then writes.
  \<^item> Validation comes first. \<open>endDate\<close> is a required path, so a new document without
    one is refused before the hook can compute it. Of the other required paths,
    \<open>student\<close> and \<open>plan\<close> are always there in a document of the model, and the
    library's verdict on those the model does not carry (\<open>paymentMethod\<close>,
    \<open>amountPaid\<close>) is taken where a document is built, in \<^verbatim>\<open>create\<close> below. A
    document read from the collection was validated when it was stored and the methods
    here leave its required paths alone, so it passes.
  \<^item> A new document is inserted under its id, unless that id is taken.
  \<^item> For a stored document the library sends the paths changed since it was loaded, as
    a \<^verbatim>\<open>$set\<close> on the document with that id; \<open>changed\<close> is that update, as a function
    on the stored document. It is refused when no document has that id.
  The in-memory document is no longer new afterwards.
\<close>

definition save ::
  "(nat \<rightharpoonup> subscriptionPlan) \<Rightarrow> int \<Rightarrow> (nat \<rightharpoonup> 'a subscription_scheme) \<Rightarrow>
   ('a subscription_scheme \<Rightarrow> 'a subscription_scheme) \<Rightarrow> 'a subscription_scheme \<Rightarrow>
   error + ('a subscription_scheme \<times> (nat \<rightharpoonup> 'a subscription_scheme))"
where
  "save plans now subs changed s =
     (if isNew s \<and> endDate s = None then Inl StorageRejected
      else (case pre_save plans now s of
              Inl e \<Rightarrow> Inl e
            | Inr s1 \<Rightarrow>
                if isNew s1
                then (if subs (sub_id s1) \<noteq> None then Inl StorageRejected
                      else Inr (s1\<lparr>isNew := False\<rparr>, subs(sub_id s1 \<mapsto> s1\<lparr>isNew := False\<rparr>)))
                else (case subs (sub_id s1) of
                        None \<Rightarrow> Inl StorageRejected
                      | Some d \<Rightarrow>
                          Inr (s1, subs(sub_id s1 \<mapsto> (changed d)\<lparr>isNew := False\<rparr>)))))"

text \<open>
  \<^verbatim>\<open>Subscription.findById(id)\<close>: a fresh in-memory copy of the stored document, if
  any; a document read from the collection is not new.
\<close>

definition findById :: "(nat \<rightharpoonup> 'a subscription_scheme) \<Rightarrow> nat \<Rightarrow> 'a subscription_scheme option" where
  "findById subs i = map_option (\<lambda>d. d\<lparr>isNew := False\<rparr>) (subs i)"

subsection \<open>Instance methods and virtuals\<close>

text \<open>
  \<^verbatim>\<open>deductSession\<close>: returns true at once for an unlimited subscription, false when no
  session is left, and otherwise decrements the in-memory document, saves it and returns
  true; \<open>remainingSessions\<close> is the one path the save sends. The result carries the
  boolean, the document and the collection.
\<close>

definition deductSession ::
  "(nat \<rightharpoonup> subscriptionPlan) \<Rightarrow> int \<Rightarrow> (nat \<rightharpoonup> 'a subscription_scheme) \<Rightarrow>
   'a subscription_scheme \<Rightarrow>
   error + (bool \<times> 'a subscription_scheme \<times> (nat \<rightharpoonup> 'a subscription_scheme))"
where
  "deductSession plans now subs s =
     (case remainingSessions s of
        None \<Rightarrow> Inr (True, s, subs)
      | Some r \<Rightarrow>
          if r \<le> 0 then Inr (False, s, subs)
          else (case save plans now subs (\<lambda>d. d\<lparr>remainingSessions := Some (r - 1)\<rparr>)
                       (s\<lparr>remainingSessions := Some (r - 1)\<rparr>) of
                  Inl e \<Rightarrow> Inl e
                | Inr (s', subs') \<Rightarrow> Inr (True, s', subs')))"

text \<open>
  The virtual \<^verbatim>\<open>isActive\<close>, at the current time \<open>now\<close>. A comparison with an absent
  date is false, as a comparison with \<^verbatim>\<open>undefined\<close> is.
\<close>

definition isActive :: "int \<Rightarrow> 'a subscription_scheme \<Rightarrow> bool" where
  "isActive now s =
     (status s = S_active \<and>
      (case startDate s of None \<Rightarrow> False | Some d \<Rightarrow> now \<ge> d) \<and>
      (case endDate s of None \<Rightarrow> False | Some d \<Rightarrow> now \<le> d) \<and>
      (case remainingSessions s of None \<Rightarrow> True | Some r \<Rightarrow> r > 0))"

text \<open>
  \<open>n\<close> successive calls of \<^verbatim>\<open>deductSession\<close> on one document, each of which returns
  true; \<open>None\<close> as soon as a call returns false or throws.
\<close>

fun deductSessions ::
  "nat \<Rightarrow> (nat \<rightharpoonup> subscriptionPlan) \<Rightarrow> int \<Rightarrow> (nat \<rightharpoonup> 'a subscription_scheme) \<Rightarrow>
   'a subscription_scheme \<Rightarrow> ('a subscription_scheme \<times> (nat \<rightharpoonup> 'a subscription_scheme)) option"
where
  "deductSessions 0 plans now subs s = Some (s, subs)"
| "deductSessions (Suc n) plans now subs s =
     (case deductSession plans now subs s of
        Inr (True, s', subs') \<Rightarrow> deductSessions n plans now subs' s'
      | _ \<Rightarrow> None)"

text \<open>\<^verbatim>\<open>canBeCancelled\<close>: \<^verbatim>\<open>this.status === 'active'\<close>.\<close>

definition canBeCancelled :: "'a subscription_scheme \<Rightarrow> bool" where
  "canBeCancelled s = (status s = S_active)"

text \<open>
  \<^verbatim>\<open>canBeRenewed\<close>, at the current time \<open>now\<close>:
  \<^verbatim>\<open>(status === 'active' || status === 'expired') && now > this.endDate.setDate(this.endDate.getDate() - 30)\<close>.
  \<^verbatim>\<open>setDate\<close> changes the document's \<^verbatim>\<open>Date\<close> in place and returns the new time value,
  so the result carries the document as the call leaves it. The right operand is only
  evaluated when the status test holds; without an end date the method call on
  \<^verbatim>\<open>undefined\<close> throws.
\<close>

definition canBeRenewed ::
  "int \<Rightarrow> 'a subscription_scheme \<Rightarrow> error + (bool \<times> 'a subscription_scheme)"
where
  "canBeRenewed now s =
     (if status s = S_active \<or> status s = S_expired then
        (case endDate s of
           None \<Rightarrow> Inl TypeError
         | Some e \<Rightarrow>
             let e' = setDate e (getDate e - 30)
             in Inr (now > e', s\<lparr>endDate := Some e'\<rparr>))
      else Inr (False, s))"

subsection \<open>Creating a subscription\<close>

text \<open>
  The data handed to \<^verbatim>\<open>Subscription.create\<close>: every field may be absent. A request
  body is such an object.
\<close>

record sub_data =
  d_student :: "nat option"
  d_plan :: "nat option"
  d_startDate :: "int option"
  d_endDate :: "int option"
  d_status :: "sub_status option"
  d_remainingSessions :: "int option"
  d_cancelledAt :: "int option"
  d_cancelReason :: "string option"

text \<open>
  \<^verbatim>\<open>Subscription.create(data)\<close>: build a new document, with the schema's defaults
  (\<open>startDate\<close>: the current time, \<open>status\<close>: pending, \<open>remainingSessions\<close>: null) for
  what \<open>data\<close> leaves out, and save it. \<open>oid\<close> is the object id the library gives the
  document. The required student and plan must be there; \<open>accepted\<close> is the library's
  verdict on the paths the model does not carry (payment method, amount paid, ...).
\<close>

definition Subscription_create ::
  "bool \<Rightarrow> nat \<Rightarrow> (nat \<rightharpoonup> subscriptionPlan) \<Rightarrow> int \<Rightarrow> (nat \<rightharpoonup> subscription) \<Rightarrow> sub_data \<Rightarrow>
   error + (subscription \<times> (nat \<rightharpoonup> subscription))"
where
  "Subscription_create accepted oid plans now subs d =
     (if \<not> accepted then Inl StorageRejected
      else (case (d_student d, d_plan d) of
              (Some st, Some pl) \<Rightarrow>
                save plans now subs (\<lambda>x. x)
                  \<lparr>sub_id = oid, student = st, plan = pl,
                   startDate = (case d_startDate d of None \<Rightarrow> Some now | Some t \<Rightarrow> Some t),
                   endDate = d_endDate d,
                   status = (case d_status d of None \<Rightarrow> S_pending | Some x \<Rightarrow> x),
                   remainingSessions = d_remainingSessions d,
                   cancelledAt = d_cancelledAt d, cancelReason = d_cancelReason d,
                   isNew = True\<rparr>
            | _ \<Rightarrow> Inl StorageRejected))"

subsection \<open>Requests and responses\<close>

datatype role = Admin | Coach | Student

text \<open>
  The part of a request a controller reads: the id in the route, the signed-in user's
  role and id (a string), and the body.
\<close>

record 'b request =
  params_id :: nat
  user_role :: role
  user_id :: string
  body :: 'b

text \<open>
  What a controller answers: \<^verbatim>\<open>res.status(code).json(...)\<close> with the document it
  made, the same with a failure message, or \<^verbatim>\<open>next(error)\<close>.
\<close>

datatype 'a response = Json nat 'a | Fail nat string | Next error

subsection \<open>The controller createSubscription\<close>

text \<open>
  \<^verbatim>\<open>plan.durationType\<close>: the plan schema declares no such path (it has
  \<^verbatim>\<open>duration.value\<close> and \<^verbatim>\<open>duration.unit\<close>), so the read gives \<^verbatim>\<open>undefined\<close>.
\<close>

definition durationType :: "subscriptionPlan \<Rightarrow> string option" where
  "durationType p = None"

text \<open>
  The end date the controller computes from \<^verbatim>\<open>plan.durationType\<close> and
  \<^verbatim>\<open>plan.duration\<close>. In each of the three branches the argument of the setter is a number
  plus the \<^verbatim>\<open>duration\<close> object, which is not a number: the date becomes invalid, here
  \<open>None\<close>. Without a matching branch the end date is the start date.
\<close>

definition controller_endDate :: "subscriptionPlan \<Rightarrow> int \<Rightarrow> int option" where
  "controller_endDate p start =
     (if durationType p = Some ''days'' then None
      else if durationType p = Some ''months'' then None
      else if durationType p = Some ''years'' then None
      else Some start)"

text \<open>
  \<^verbatim>\<open>exports.createSubscription\<close> of \<^verbatim>\<open>src/controllers/studentController.js\<close>.
  \<open>students\<close> maps a student profile's id to what its \<^verbatim>\<open>user.toString()\<close> gives. An
  invalid end date is refused by the library's cast when the document is created.
\<close>

definition createSubscription ::
  "bool \<Rightarrow> nat \<Rightarrow> (nat \<rightharpoonup> string) \<Rightarrow> (nat \<rightharpoonup> subscriptionPlan) \<Rightarrow> int \<Rightarrow>
   (nat \<rightharpoonup> subscription) \<Rightarrow> sub_data request \<Rightarrow>
   subscription response \<times> (nat \<rightharpoonup> subscription)"
where
  "createSubscription accepted oid students plans now subs req =
     (case students (params_id req) of
        None \<Rightarrow> (Fail 404 ''Student not found'', subs)
      | Some u \<Rightarrow>
          if user_role req = Student \<and> user_id req \<noteq> u
          then (Fail 403 ''You can only create subscriptions for yourself'', subs)
          else (case (case d_plan (body req) of None \<Rightarrow> None | Some pl \<Rightarrow> plans pl) of
                  None \<Rightarrow> (Fail 404 ''Subscription plan not found'', subs)
                | Some p \<Rightarrow>
                    let start = (case d_startDate (body req) of Some t \<Rightarrow> t | None \<Rightarrow> now)
                    in (case controller_endDate p start of
                          None \<Rightarrow> (Next StorageRejected, subs)
                        | Some e \<Rightarrow>
                            (case Subscription_create accepted oid plans now subs
                                    ((body req)\<lparr>d_student := Some (params_id req),
                                                d_endDate := Some e,
                                                d_status := Some S_active\<rparr>) of
                               Inl err \<Rightarrow> (Next err, subs)
                             | Inr (s, subs') \<Rightarrow> (Json 201 s, subs')))))"

section \<open>Transactions\<close>

datatype txn_type = Ty_payment | Ty_refund | Ty_adjustment

datatype txn_status = T_pending | T_completed | T_failed | T_refunded | T_disputed

text \<open>
  A transaction document. The collection is a list, oldest first, and a document's
  object id is its position in the list, so \<open>refundedTransaction\<close> holds a position.
  \<open>transactionId\<close> is absent only on a document that is not stored yet.
\<close>

record transaction =
  t_student :: nat
  t_subscription :: nat
  transactionId :: "string option"
  t_type :: txn_type
  t_amount :: int
  t_currency :: string
  t_paymentMethod :: string
  t_paymentGateway :: string
  t_status :: txn_status
  t_notes :: "string option"
  refundedTransaction :: "nat option"

text \<open>
  The value a caller puts into \<open>amount\<close>: a number (\<^verbatim>\<open>processRefund\<close>) or the plan's
  price object, \<^verbatim>\<open>{amount, currency}\<close> (\<^verbatim>\<open>createTransaction\<close>). The schema's type for
  the path is Number: the library's cast takes a number as it is and refuses an object
  that is not a number.
\<close>

datatype amount_value = Num int | PriceObject price

definition castNumber :: "amount_value \<Rightarrow> int option" where
  "castNumber v = (case v of Num n \<Rightarrow> Some n | PriceObject p \<Rightarrow> None)"

text \<open>The data handed to \<^verbatim>\<open>Transaction.create\<close>: every field may be absent.\<close>

record txn_data =
  x_student :: "nat option"
  x_subscription :: "nat option"
  x_transactionId :: "string option"
  x_type :: "txn_type option"
  x_amount :: "amount_value option"
  x_currency :: "string option"
  x_paymentMethod :: "string option"
  x_paymentGateway :: "string option"
  x_status :: "txn_status option"
  x_notes :: "string option"
  x_refundedTransaction :: "nat option"

text \<open>Decimal digits of a number, as a template literal prints it.\<close>

definition digit_char :: "nat \<Rightarrow> char" where
  "digit_char d = ''0123456789'' ! d"

fun show_nat :: "nat \<Rightarrow> string" where
  "show_nat n =
     (if n < 10 then [digit_char n]
      else show_nat (n div 10) @ [digit_char (n mod 10)])"

declare show_nat.simps [simp del]

text \<open>
  \<^verbatim>\<open>transactionSchema.pre('save', ...)\<close> on a new document: when \<open>transactionId\<close> is
  absent or empty it becomes \<^verbatim>\<open>TRX-${timestamp}-${randomNum}\<close>, with \<open>ts\<close> the clock's
  milliseconds and \<open>rnd\<close> the random number drawn.
\<close>

definition generate_transactionId :: "nat \<Rightarrow> nat \<Rightarrow> string option \<Rightarrow> string" where
  "generate_transactionId ts rnd given =
     (case given of
        Some tid \<Rightarrow> if tid \<noteq> [] then tid else ''TRX-'' @ show_nat ts @ ''-'' @ show_nat rnd
      | None \<Rightarrow> ''TRX-'' @ show_nat ts @ ''-'' @ show_nat rnd)"

text \<open>
  \<^verbatim>\<open>Transaction.create(data)\<close>: build a new document and save it. The library
  validates first: the required student, subscription, transaction id (a string that is
  not empty), type, amount and payment method must be there and the amount must cast
  to a number; \<open>accepted\<close> is its verdict on the rest (the enumerations of type and
  payment method). Only then does the pre-save hook run, so whenever it runs the
  transaction id is there already. Currency, gateway and status have the schema's
  defaults; the unique index refuses a transaction id that is already in the
  collection. The new document goes to the end of the collection.
\<close>

definition Transaction_create ::
  "bool \<Rightarrow> nat \<Rightarrow> nat \<Rightarrow> transaction list \<Rightarrow> txn_data \<Rightarrow>
   error + (transaction \<times> transaction list)"
where
  "Transaction_create accepted ts rnd ledger d =
     (if \<not> accepted then Inl StorageRejected
      else (case (x_student d, x_subscription d,
                  (case x_transactionId d of
                     None \<Rightarrow> None
                   | Some given \<Rightarrow> if given \<noteq> [] then Some given else None),
                  x_type d, x_paymentMethod d,
                  (case x_amount d of None \<Rightarrow> None | Some v \<Rightarrow> castNumber v)) of
              (Some st, Some sb, Some given, Some ty, Some pm, Some a) \<Rightarrow>
                let tid = generate_transactionId ts rnd (Some given);
                    t = \<lparr>t_student = st, t_subscription = sb, transactionId = Some tid,
                         t_type = ty, t_amount = a,
                         t_currency = (case x_currency d of None \<Rightarrow> ''USD'' | Some c \<Rightarrow> c),
                         t_paymentMethod = pm,
                         t_paymentGateway =
                           (case x_paymentGateway d of None \<Rightarrow> ''manual'' | Some g \<Rightarrow> g),
                         t_status = (case x_status d of None \<Rightarrow> T_pending | Some x \<Rightarrow> x),
                         t_notes = x_notes d,
                         refundedTransaction = x_refundedTransaction d\<rparr>
                in if list_ex (\<lambda>u. transactionId u = Some tid) ledger
                   then Inl StorageRejected
                   else Inr (t, ledger @ [t])
            | _ \<Rightarrow> Inl StorageRejected))"

text \<open>
  \<^verbatim>\<open>this.findOne({ transactionId })\<close>: the first document with that transaction id,
  with its position.
\<close>

definition findOne :: "transaction list \<Rightarrow> string \<Rightarrow> (nat \<times> transaction) option" where
  "findOne ledger tid = List.find (\<lambda>(i, t). transactionId t = Some tid) (enumerate 0 ledger)"

text \<open>
  \<^verbatim>\<open>const refundAmount = amount || originalTransaction.amount\<close>: the original's
  amount when \<open>amount\<close> is absent or 0.
\<close>

definition refundAmount :: "int option \<Rightarrow> transaction \<Rightarrow> int" where
  "refundAmount amount originalTransaction =
     (case amount of
        Some a \<Rightarrow> if a \<noteq> 0 then a else t_amount originalTransaction
      | None \<Rightarrow> t_amount originalTransaction)"

text \<open>
  \<^verbatim>\<open>processRefund(transactionId, amount, reason)\<close>. The refund row is handed to
  \<^verbatim>\<open>create\<close> without a transaction id. \<^verbatim>\<open>reason || 'Refund processed'\<close> is the
  default note when the reason is absent or empty. After the refund row is created the
  original's status is set to refunded and saved, a \<^verbatim>\<open>$set\<close> of that path on the
  stored original. An error leaves the collection as it was: each throw of the source
  comes before its first write has succeeded.
\<close>

definition processRefund ::
  "bool \<Rightarrow> nat \<Rightarrow> nat \<Rightarrow> transaction list \<Rightarrow> string \<Rightarrow> int option \<Rightarrow> string option \<Rightarrow>
   error + (transaction \<times> transaction list)"
where
  "processRefund accepted ts rnd ledger tid amount reason =
     (case findOne ledger tid of
        None \<Rightarrow> Inl TransactionNotFound
      | Some (i, originalTransaction) \<Rightarrow>
          if t_status originalTransaction \<noteq> T_completed then Inl OnlyCompletedCanBeRefunded
          else if refundAmount amount originalTransaction > t_amount originalTransaction
          then Inl RefundExceedsOriginal
          else
            (case Transaction_create accepted ts rnd ledger
                    \<lparr>x_student = Some (t_student originalTransaction),
                     x_subscription = Some (t_subscription originalTransaction),
                     x_transactionId = None,
                     x_type = Some Ty_refund,
                     x_amount = Some (Num (refundAmount amount originalTransaction)),
                     x_currency = Some (t_currency originalTransaction),
                     x_paymentMethod = Some (t_paymentMethod originalTransaction),
                     x_paymentGateway = Some (t_paymentGateway originalTransaction),
                     x_status = Some T_completed,
                     x_notes = Some (case reason of
                                       Some r \<Rightarrow> if r \<noteq> [] then r else ''Refund processed''
                                     | None \<Rightarrow> ''Refund processed''),
                     x_refundedTransaction = Some i\<rparr> of
               Inl e \<Rightarrow> Inl e
             | Inr (refundTransaction, ledger1) \<Rightarrow>
                 Inr (refundTransaction,
                      ledger1[i := (ledger1 ! i)\<lparr>t_status := T_refunded\<rparr>])))"




subsection \<open>The controller createTransaction\<close>

text \<open>
  \<^verbatim>\<open>exports.createTransaction\<close>. \<open>owner\<close> gives, for the loaded subscription, what
  \<^verbatim>\<open>subscription.student.user._id.toString()\<close> evaluates to, \<open>None\<close> when a link on the
  way is null or undefined; it is only read for a student. Reading \<^verbatim>\<open>price\<close> off a
  missing plan throws. \<^verbatim>\<open>req.body.amount = subscription.plan.price\<close> puts the plan's
  price object into the amount. The body's \<open>paymentDate\<close> is no path of the schema and is
  dropped. The save after the status change sends \<open>status\<close>.
\<close>

definition createTransaction ::
  "bool \<Rightarrow> nat \<Rightarrow> nat \<Rightarrow> (subscription \<Rightarrow> string option) \<Rightarrow>
   (nat \<rightharpoonup> subscriptionPlan) \<Rightarrow> int \<Rightarrow> (nat \<rightharpoonup> subscription) \<Rightarrow> transaction list \<Rightarrow>
   txn_data request \<Rightarrow>
   transaction response \<times> (nat \<rightharpoonup> subscription) \<times> transaction list"
where
  "createTransaction accepted ts rnd owner plans now subs ledger req =
     (case findById subs (params_id req) of
        None \<Rightarrow> (Fail 404 ''Subscription not found'', subs, ledger)
      | Some subscription \<Rightarrow>
          (case (if user_role req = Student
                 then (case owner subscription of
                         None \<Rightarrow> Inl TypeError
                       | Some u \<Rightarrow> Inr (u \<noteq> user_id req))
                 else Inr False) of
             Inl e \<Rightarrow> (Next e, subs, ledger)
           | Inr True \<Rightarrow>
               (Fail 403 ''You can only create transactions for your own subscriptions'',
                subs, ledger)
           | Inr False \<Rightarrow>
               (case plans (plan subscription) of
                  None \<Rightarrow> (Next TypeError, subs, ledger)
                | Some p \<Rightarrow>
                    (case Transaction_create accepted ts rnd ledger
                            ((body req)\<lparr>x_subscription := Some (params_id req),
                                        x_amount := Some (PriceObject (price p)),
                                        x_status := Some T_completed\<rparr>) of
                       Inl e \<Rightarrow> (Next e, subs, ledger)
                     | Inr (t, ledger') \<Rightarrow>
                         if status subscription \<noteq> S_active
                         then (case save plans now subs (\<lambda>d. d\<lparr>status := S_active\<rparr>)
                                      (subscription\<lparr>status := S_active\<rparr>) of
                                 Inl e \<Rightarrow> (Next e, subs, ledger')
                               | Inr (s', subs') \<Rightarrow> (Json 201 t, subs', ledger'))
                         else (Json 201 t, subs, ledger')))))"

subsection \<open>Two handlers deducting from one subscription\<close>

text \<open>
  A request handler that deducts a session loads the subscription with
  \<^verbatim>\<open>findById\<close> and calls \<^verbatim>\<open>deductSession\<close> on the document it got. Each of the
  two is one step; the steps of different handlers interleave at the source's
  \<^verbatim>\<open>await\<close>s. A handler is named by a number; \<open>r_doc\<close> is the document it holds and
  \<open>r_result\<close> what its \<^verbatim>\<open>deductSession\<close> returned.
\<close>

datatype step = Load nat | Deduct nat

record 'a race =
  r_subs :: "nat \<rightharpoonup> 'a subscription_scheme"
  r_doc :: "nat \<rightharpoonup> 'a subscription_scheme"
  r_result :: "nat \<rightharpoonup> bool"

fun race_step ::
  "(nat \<rightharpoonup> subscriptionPlan) \<Rightarrow> int \<Rightarrow> nat \<Rightarrow> step \<Rightarrow> 'a race \<Rightarrow> 'a race"
where
  "race_step plans now i (Load c) st =
     (case findById (r_subs st) i of
        None \<Rightarrow> st
      | Some d \<Rightarrow> st\<lparr>r_doc := (r_doc st)(c \<mapsto> d)\<rparr>)"
| "race_step plans now i (Deduct c) st =
     (case r_doc st c of
        None \<Rightarrow> st
      | Some d \<Rightarrow>
          (case deductSession plans now (r_subs st) d of
             Inl e \<Rightarrow> st
           | Inr (b, d', subs') \<Rightarrow>
               st\<lparr>r_subs := subs', r_doc := (r_doc st)(c \<mapsto> d'),
                  r_result := (r_result st)(c \<mapsto> b)\<rparr>))"

fun race_run ::
  "(nat \<rightharpoonup> subscriptionPlan) \<Rightarrow> int \<Rightarrow> nat \<Rightarrow> step list \<Rightarrow> 'a race \<Rightarrow> 'a race"
where
  "race_run plans now i [] st = st"
| "race_run plans now i (e # es) st = race_run plans now i es (race_step plans now i e st)"

definition race_init :: "(nat \<rightharpoonup> 'a subscription_scheme) \<Rightarrow> 'a race" where
  "race_init subs = \<lparr>r_subs = subs, r_doc = Map.empty, r_result = Map.empty\<rparr>"

text \<open>Every order in which the steps of two handlers can run, each handler's own order kept.\<close>

fun interleave :: "'b list \<Rightarrow> 'b list \<Rightarrow> 'b list list" where
  "interleave [] ys = [ys]"
| "interleave xs [] = [xs]"
| "interleave (x # xs) (y # ys) =
     map ((#) x) (interleave xs (y # ys)) @ map ((#) y) (interleave (x # xs) ys)"

text \<open>Example documents: a stored subscription with the given status and session count.\<close>

definition example_plan :: subscriptionPlan where
  "example_plan =
     \<lparr>duration = \<lparr>dvalue = 1, dunit = Months\<rparr>,
      price = \<lparr>p_amount = 100, p_currency = ''USD''\<rparr>,
      maxSessions = Some 4\<rparr>"

definition example_payment :: "txn_status \<Rightarrow> transaction" where
  "example_payment st =
     \<lparr>t_student = 3, t_subscription = 7, transactionId = Some ''TRX-1'',
      t_type = Ty_payment, t_amount = 100, t_currency = ''USD'',
      t_paymentMethod = ''cash'', t_paymentGateway = ''manual'', t_status = st,
      t_notes = None, refundedTransaction = None\<rparr>"

definition example_adjustment :: transaction where
  "example_adjustment =
     \<lparr>t_student = 3, t_subscription = 7, transactionId = Some ''TRX-3'',
      t_type = Ty_adjustment, t_amount = - 5, t_currency = ''USD'',
      t_paymentMethod = ''cash'', t_paymentGateway = ''manual'', t_status = T_completed,
      t_notes = None, refundedTransaction = None\<rparr>"

definition example_txn_req :: "txn_data request" where
  "example_txn_req =
     \<lparr>params_id = 7, user_role = Admin, user_id = ''u9'',
      body = \<lparr>x_student = Some 3, x_subscription = None, x_transactionId = Some ''TRX-2'',
              x_type = Some Ty_payment, x_amount = None, x_currency = None,
              x_paymentMethod = Some ''cash'', x_paymentGateway = None, x_status = None,
              x_notes = None, x_refundedTransaction = None\<rparr>\<rparr>"

definition example_req :: "sub_data request" where
  "example_req =
     \<lparr>params_id = 3, user_role = Admin, user_id = ''u9'',
      body = \<lparr>d_student = None, d_plan = Some 1, d_startDate = Some (utc 2024 0 15),
              d_endDate = None, d_status = None, d_remainingSessions = None,
              d_cancelledAt = None, d_cancelReason = None\<rparr>\<rparr>"

definition example_sub :: "sub_status \<Rightarrow> int option \<Rightarrow> subscription" where
  "example_sub st r =
     \<lparr>sub_id = 7, student = 1, plan = 1, startDate = Some (utc 2024 0 15),
      endDate = Some (utc 2024 1 15), status = st, remainingSessions = r,
      cancelledAt = None, cancelReason = None, isNew = False\<rparr>"

section \<open>Properties of session deduction\<close>

lemma save_stored:
  assumes "subs (sub_id s) = Some d" and "\<not> isNew s"
  shows "save plans now subs changed s =
     Inr (s, subs(sub_id s \<mapsto> (changed d)\<lparr>isNew := False\<rparr>))"
  using assms by (simp add: save_def pre_save_def)

lemma deductSession_null:
  "remainingSessions s = None \<Longrightarrow> deductSession plans now subs s = Inr (True, s, subs)"
  by (simp add: deductSession_def)

lemma deductSession_exhausted:
  "remainingSessions s = Some r \<Longrightarrow> r \<le> 0 \<Longrightarrow>
   deductSession plans now subs s = Inr (False, s, subs)"
  by (simp add: deductSession_def)

lemma deductSession_decrement:
  assumes "subs (sub_id s) = Some d" "\<not> isNew s" "remainingSessions s = Some r" "0 < r"
  shows "deductSession plans now subs s =
     Inr (True, s\<lparr>remainingSessions := Some (r - 1)\<rparr>,
          subs(sub_id s \<mapsto> d\<lparr>remainingSessions := Some (r - 1), isNew := False\<rparr>))"
proof -
  let ?m = "s\<lparr>remainingSessions := Some (r - 1)\<rparr>"
  have st: "subs (sub_id ?m) = Some d" "\<not> isNew ?m"
    using assms(1,2) by simp_all
  have "deductSession plans now subs s =
      Inr (True, ?m, subs(sub_id ?m \<mapsto> (d\<lparr>remainingSessions := Some (r - 1)\<rparr>)\<lparr>isNew := False\<rparr>))"
    using assms(3,4) by (simp add: deductSession_def save_stored[where s="?m" and subs=subs and d=d, OF st])
  then show ?thesis by simp
qed

lemma deductSessions_count:
  "subs (sub_id s) = Some d \<Longrightarrow> \<not> isNew s \<Longrightarrow> remainingSessions s = Some r \<Longrightarrow>
   deductSessions n plans now subs s = Some (s', subs') \<Longrightarrow>
   remainingSessions s' = Some (r - int n)"
proof (induction n arbitrary: s d r subs)
  case 0
  then show ?case by simp
next
  case (Suc n)
  show ?case
  proof (cases "0 < r")
    case True
    let ?s1 = "s\<lparr>remainingSessions := Some (r - 1)\<rparr>"
    let ?d1 = "d\<lparr>remainingSessions := Some (r - 1), isNew := False\<rparr>"
    have step: "deductSession plans now subs s = Inr (True, ?s1, subs(sub_id s \<mapsto> ?d1))"
      using Suc.prems(1,2,3) True by (rule deductSession_decrement)
    have stored: "(subs(sub_id s \<mapsto> ?d1)) (sub_id ?s1) = Some ?d1" by simp
    have fresh: "\<not> isNew ?s1" using Suc.prems(2) by simp
    have rs: "remainingSessions ?s1 = Some (r - 1)" by simp
    have run: "deductSessions n plans now (subs(sub_id s \<mapsto> ?d1)) ?s1 = Some (s', subs')"
      using Suc.prems(4) step by simp
    have "remainingSessions s' = Some (r - 1 - int n)"
      by (rule Suc.IH[where s="?s1" and d="?d1" and r="r - 1" and subs="subs(sub_id s \<mapsto> ?d1)",
            OF stored fresh rs run])
    then show ?thesis by simp
  next
    case False
    then have "deductSession plans now subs s = Inr (False, s, subs)"
      using Suc.prems(3) by (simp add: deductSession_exhausted)
    then show ?thesis using Suc.prems(4) by simp
  qed
qed

lemma deductSessions_succeed:
  "subs (sub_id s) = Some d \<Longrightarrow> \<not> isNew s \<Longrightarrow> remainingSessions s = Some r \<Longrightarrow> int n \<le> r \<Longrightarrow>
   deductSessions n plans now subs s \<noteq> None"
proof (induction n arbitrary: s d r subs)
  case 0
  then show ?case by simp
next
  case (Suc n)
  let ?s1 = "s\<lparr>remainingSessions := Some (r - 1)\<rparr>"
  let ?d1 = "d\<lparr>remainingSessions := Some (r - 1), isNew := False\<rparr>"
  have pos: "0 < r" using Suc.prems(4) by simp
  have step: "deductSession plans now subs s = Inr (True, ?s1, subs(sub_id s \<mapsto> ?d1))"
    using Suc.prems(1,2,3) pos by (rule deductSession_decrement)
  have stored: "(subs(sub_id s \<mapsto> ?d1)) (sub_id ?s1) = Some ?d1" by simp
  have fresh: "\<not> isNew ?s1" using Suc.prems(2) by simp
  have rs: "remainingSessions ?s1 = Some (r - 1)" by simp
  have le: "int n \<le> r - 1" using Suc.prems(4) by simp
  have "deductSessions n plans now (subs(sub_id s \<mapsto> ?d1)) ?s1 \<noteq> None"
    by (rule Suc.IH[where s="?s1" and d="?d1" and r="r - 1" and subs="subs(sub_id s \<mapsto> ?d1)",
          OF stored fresh rs le])
  then show ?case using step by simp
qed

text \<open>
  Claim C1. Let \<open>s\<close> be a document that is not new and whose id is in the collection,
  \<open>d\<close> being the stored document: what \<^verbatim>\<open>findById\<close> hands a caller. Then
  \<^verbatim>\<open>deductSession\<close> returns true and changes nothing when \<open>remainingSessions\<close> is
  null; returns false, the failure, and changes nothing when it is at most 0; and
  otherwise returns true with \<open>remainingSessions\<close> one less, in the document and, by
  the save's \<^verbatim>\<open>$set\<close>, in the stored document. After \<open>n\<close> calls that all returned true the
  count is the initial one minus \<open>n\<close>, and \<open>n\<close> calls do all return true while \<open>n\<close> is at
  most the initial count.
\<close>

theorem deductSession_contract:
  assumes "subs (sub_id s) = Some d" and "\<not> isNew s"
  shows "(remainingSessions s = None \<longrightarrow>
            deductSession plans now subs s = Inr (True, s, subs)) \<and>
         (\<forall>r. remainingSessions s = Some r \<and> r \<le> 0 \<longrightarrow>
            deductSession plans now subs s = Inr (False, s, subs)) \<and>
         (\<forall>r. remainingSessions s = Some r \<and> 0 < r \<longrightarrow>
            deductSession plans now subs s =
              Inr (True, s\<lparr>remainingSessions := Some (r - 1)\<rparr>,
                   subs(sub_id s \<mapsto> d\<lparr>remainingSessions := Some (r - 1), isNew := False\<rparr>))) \<and>
         (\<forall>n r s' subs'. remainingSessions s = Some r \<and>
            deductSessions n plans now subs s = Some (s', subs') \<longrightarrow>
            remainingSessions s' = Some (r - int n)) \<and>
         (\<forall>n r. remainingSessions s = Some r \<and> int n \<le> r \<longrightarrow>
            deductSessions n plans now subs s \<noteq> None)"
proof (intro conjI allI impI)
  assume "remainingSessions s = None"
  then show "deductSession plans now subs s = Inr (True, s, subs)"
    by (rule deductSession_null)
next
  fix r assume "remainingSessions s = Some r \<and> r \<le> 0"
  then show "deductSession plans now subs s = Inr (False, s, subs)"
    by (simp add: deductSession_exhausted)
next
  fix r assume "remainingSessions s = Some r \<and> 0 < r"
  then show "deductSession plans now subs s =
      Inr (True, s\<lparr>remainingSessions := Some (r - 1)\<rparr>,
           subs(sub_id s \<mapsto> d\<lparr>remainingSessions := Some (r - 1), isNew := False\<rparr>))"
    using assms by (simp add: deductSession_decrement)
next
  fix n r s' subs'
  assume "remainingSessions s = Some r \<and> deductSessions n plans now subs s = Some (s', subs')"
  then show "remainingSessions s' = Some (r - int n)"
    using assms deductSessions_count by blast
next
  fix n r assume "remainingSessions s = Some r \<and> int n \<le> r"
  then show "deductSessions n plans now subs s \<noteq> None"
    using assms deductSessions_succeed by blast
qed

theorem deductSession_contract_witness:
  "findById [7 \<mapsto> example_sub S_active (Some 2)] 7 = Some (example_sub S_active (Some 2)) \<and>
   \<not> isNew (example_sub S_active (Some 2)) \<and>
   remainingSessions (example_sub S_active (Some 2)) = Some 2 \<and>
   deductSession Map.empty 0 [7 \<mapsto> example_sub S_active (Some 2)] (example_sub S_active (Some 2)) =
     Inr (True, example_sub S_active (Some 1), [7 \<mapsto> example_sub S_active (Some 1)]) \<and>
   deductSessions 2 Map.empty 0 [7 \<mapsto> example_sub S_active (Some 2)]
     (example_sub S_active (Some 2)) \<noteq> None \<and>
   deductSession Map.empty 0 [7 \<mapsto> example_sub S_active (Some 0)] (example_sub S_active (Some 0)) =
     Inr (False, example_sub S_active (Some 0), [7 \<mapsto> example_sub S_active (Some 0)]) \<and>
   deductSession Map.empty 0 [7 \<mapsto> example_sub S_active None] (example_sub S_active None) =
     Inr (True, example_sub S_active None, [7 \<mapsto> example_sub S_active None])"
proof -
  have stored: "\<And>r. [7 \<mapsto> example_sub S_active r] (sub_id (example_sub S_active r))
      = Some (example_sub S_active r)"
    by (simp add: example_sub_def)
  have old: "\<And>r. \<not> isNew (example_sub S_active r)"
    by (simp add: example_sub_def)
  have upd: "(example_sub S_active (Some 2))\<lparr>remainingSessions := Some (2 - 1)\<rparr>
      = example_sub S_active (Some 1)"
    "(example_sub S_active (Some 2))\<lparr>remainingSessions := Some (2 - 1), isNew := False\<rparr>
      = example_sub S_active (Some 1)"
    by (simp_all add: example_sub_def)
  have id: "sub_id (example_sub S_active (Some 2)) = 7"
    by (simp add: example_sub_def)
  have rem: "\<And>r. remainingSessions (example_sub S_active r) = r"
    by (simp add: example_sub_def)
  have load: "findById [7 \<mapsto> example_sub S_active (Some 2)] 7 = Some (example_sub S_active (Some 2))"
    by (simp add: findById_def example_sub_def)
  show ?thesis
    using deductSession_contract[where subs="[7 \<mapsto> example_sub S_active (Some 2)]"
          and s="example_sub S_active (Some 2)" and d="example_sub S_active (Some 2)"
          and plans=Map.empty and now=0, OF stored old]
      deductSession_contract[where subs="[7 \<mapsto> example_sub S_active (Some 0)]"
          and s="example_sub S_active (Some 0)" and d="example_sub S_active (Some 0)"
          and plans=Map.empty and now=0, OF stored old]
      deductSession_contract[where subs="[7 \<mapsto> example_sub S_active None]"
          and s="example_sub S_active None" and d="example_sub S_active None"
          and plans=Map.empty and now=0, OF stored old]
      old[of "Some 2"] upd id rem load
    by simp
qed

text \<open>
  Claim C3, as stated, fails: \<^verbatim>\<open>deductSession\<close> never reads \<open>status\<close>. On a cancelled
  subscription with three sessions left it returns true and stores two.
\<close>

theorem deductSession_cancelled_counterexample:
  "status (example_sub S_cancelled (Some 3)) = S_cancelled \<and>
   findById [7 \<mapsto> example_sub S_cancelled (Some 3)] 7 = Some (example_sub S_cancelled (Some 3)) \<and>
   deductSession Map.empty 0 [7 \<mapsto> example_sub S_cancelled (Some 3)]
       (example_sub S_cancelled (Some 3)) =
     Inr (True, example_sub S_cancelled (Some 2), [7 \<mapsto> example_sub S_cancelled (Some 2)])"
  by (simp add: example_sub_def findById_def deductSession_def save_def pre_save_def Let_def)

text \<open>
  Claim C3, amended. For a subscription whose status is cancelled or expired,
  \<^verbatim>\<open>isActive\<close> is false at every time, but \<^verbatim>\<open>deductSession\<close> consults neither: on
  such a document, not new and stored under its id, it returns false and leaves
  \<open>remainingSessions\<close> unchanged only when that is at most 0; when it is positive the call
  returns true and stores one less, and when it is null the call returns true and changes
  nothing.
\<close>

theorem deductSession_ignores_status:
  assumes "status s = S_cancelled \<or> status s = S_expired"
    and "subs (sub_id s) = Some d" and "\<not> isNew s"
  shows "\<not> isActive now' s \<and>
         (remainingSessions s = None \<longrightarrow>
            deductSession plans now subs s = Inr (True, s, subs)) \<and>
         (\<forall>r. remainingSessions s = Some r \<and> r \<le> 0 \<longrightarrow>
            deductSession plans now subs s = Inr (False, s, subs)) \<and>
         (\<forall>r. remainingSessions s = Some r \<and> 0 < r \<longrightarrow>
            deductSession plans now subs s =
              Inr (True, s\<lparr>remainingSessions := Some (r - 1)\<rparr>,
                   subs(sub_id s \<mapsto> d\<lparr>remainingSessions := Some (r - 1), isNew := False\<rparr>)))"
proof -
  have "\<not> isActive now' s"
    using assms(1) by (auto simp: isActive_def)
  then show ?thesis
    using assms(2,3)
    by (simp add: deductSession_null deductSession_exhausted deductSession_decrement)
qed

theorem deductSession_ignores_status_witness:
  "status (example_sub S_expired (Some 3)) = S_expired \<and>
   findById [7 \<mapsto> example_sub S_expired (Some 3)] 7 = Some (example_sub S_expired (Some 3)) \<and>
   \<not> isNew (example_sub S_expired (Some 3)) \<and>
   \<not> isActive (utc 2024 0 20) (example_sub S_expired (Some 3)) \<and>
   deductSession Map.empty 0 [7 \<mapsto> example_sub S_expired (Some 3)]
       (example_sub S_expired (Some 3)) =
     Inr (True, example_sub S_expired (Some 2), [7 \<mapsto> example_sub S_expired (Some 2)])"
proof -
  have st: "status (example_sub S_expired (Some 3)) = S_cancelled \<or>
            status (example_sub S_expired (Some 3)) = S_expired"
    by (simp add: example_sub_def)
  have stored: "[7 \<mapsto> example_sub S_expired (Some 3)] (sub_id (example_sub S_expired (Some 3)))
      = Some (example_sub S_expired (Some 3))"
    by (simp add: example_sub_def)
  have old: "\<not> isNew (example_sub S_expired (Some 3))"
    by (simp add: example_sub_def)
  have upd: "(example_sub S_expired (Some 3))\<lparr>remainingSessions := Some (3 - 1)\<rparr>
      = example_sub S_expired (Some 2)"
    "(example_sub S_expired (Some 3))\<lparr>remainingSessions := Some (3 - 1), isNew := False\<rparr>
      = example_sub S_expired (Some 2)"
    by (simp_all add: example_sub_def)
  have id: "sub_id (example_sub S_expired (Some 3)) = 7"
    by (simp add: example_sub_def)
  have rem: "remainingSessions (example_sub S_expired (Some 3)) = Some 3"
    by (simp add: example_sub_def)
  have load: "findById [7 \<mapsto> example_sub S_expired (Some 3)] 7
      = Some (example_sub S_expired (Some 3))"
    by (simp add: findById_def example_sub_def)
  show ?thesis
    using deductSession_ignores_status[where subs="[7 \<mapsto> example_sub S_expired (Some 3)]"
          and s="example_sub S_expired (Some 3)" and d="example_sub S_expired (Some 3)"
          and now'="utc 2024 0 20" and plans=Map.empty and now=0, OF st stored old]
      old upd id rem load
    by (simp add: example_sub_def)
qed

lemma interleave_two_handlers:
  "interleave [Load 0, Deduct 0] [Load 1, Deduct 1] =
    [[Load 0, Deduct 0, Load 1, Deduct 1], [Load 0, Load 1, Deduct 0, Deduct 1],
     [Load 0, Load 1, Deduct 1, Deduct 0], [Load 1, Load 0, Deduct 0, Deduct 1],
     [Load 1, Load 0, Deduct 1, Deduct 0], [Load 1, Deduct 1, Load 0, Deduct 0]]"
  by simp

text \<open>
  Claim C2, as stated, fails: \<^verbatim>\<open>deductSession\<close> tests and decrements the document its
  caller loaded and saves that, so when both handlers load the subscription (one session
  left) before either deducts, both calls return true.
\<close>

theorem deductSession_race_counterexample:
  "[Load 0, Load 1, Deduct 0, Deduct 1] \<in> set (interleave [Load 0, Deduct 0] [Load 1, Deduct 1]) \<and>
   remainingSessions (example_sub S_active (Some 1)) = Some 1 \<and>
   r_result (race_run Map.empty 0 7 [Load 0, Load 1, Deduct 0, Deduct 1]
               (race_init [7 \<mapsto> example_sub S_active (Some 1)])) 0 = Some True \<and>
   r_result (race_run Map.empty 0 7 [Load 0, Load 1, Deduct 0, Deduct 1]
               (race_init [7 \<mapsto> example_sub S_active (Some 1)])) 1 = Some True"
  by (simp add: race_init_def findById_def example_sub_def deductSession_def save_def
      pre_save_def Let_def)

text \<open>
  Claim C2, amended. \<^verbatim>\<open>deductSession\<close> is a load-then-save on the caller's document,
  not a conditional update. For a stored subscription with one session left and two
  handlers that each load it and then deduct, in every interleaving of their steps both
  calls return, the stored count ends at 0 (never negative) and at least one call returns
  true; both return true exactly when both loads come before both deductions (each
  handler read the count before the other saved), and otherwise exactly one returns true
  and the other false.
\<close>

theorem deductSession_race:
  assumes "subs i = Some s" and "sub_id s = i" and "remainingSessions s = Some 1"
  shows "\<forall>sch \<in> set (interleave [Load 0, Deduct 0] [Load 1, Deduct 1]).
           map_option remainingSessions (r_subs (race_run plans now i sch (race_init subs)) i)
             = Some (Some 0) \<and>
           r_result (race_run plans now i sch (race_init subs)) 0 \<noteq> None \<and>
           r_result (race_run plans now i sch (race_init subs)) 1 \<noteq> None \<and>
           (r_result (race_run plans now i sch (race_init subs)) 0 = Some True \<or>
            r_result (race_run plans now i sch (race_init subs)) 1 = Some True) \<and>
           ((r_result (race_run plans now i sch (race_init subs)) 0 = Some True \<and>
             r_result (race_run plans now i sch (race_init subs)) 1 = Some True)
            \<longleftrightarrow> (\<exists>c c'. take 2 sch = [Load c, Load c']))"
  unfolding interleave_two_handlers
  using assms
  by (auto simp add: race_init_def findById_def deductSession_def save_def pre_save_def Let_def)

theorem deductSession_race_witness:
  "[7 \<mapsto> example_sub S_active (Some 1)] (7::nat) = Some (example_sub S_active (Some 1)) \<and>
   sub_id (example_sub S_active (Some 1)) = 7 \<and>
   remainingSessions (example_sub S_active (Some 1)) = Some 1 \<and>
   [Load 0, Deduct 0, Load 1, Deduct 1] \<in> set (interleave [Load 0, Deduct 0] [Load 1, Deduct 1]) \<and>
   map_option remainingSessions
     (r_subs (race_run Map.empty 0 7 [Load 0, Deduct 0, Load 1, Deduct 1]
                (race_init [7 \<mapsto> example_sub S_active (Some 1)])) 7) = Some (Some 0) \<and>
   r_result (race_run Map.empty 0 7 [Load 0, Deduct 0, Load 1, Deduct 1]
               (race_init [7 \<mapsto> example_sub S_active (Some 1)])) 0 = Some True \<and>
   r_result (race_run Map.empty 0 7 [Load 0, Deduct 0, Load 1, Deduct 1]
               (race_init [7 \<mapsto> example_sub S_active (Some 1)])) 1 = Some False"
proof -
  have a: "[7 \<mapsto> example_sub S_active (Some 1)] (7::nat) = Some (example_sub S_active (Some 1))"
    by simp
  have b: "sub_id (example_sub S_active (Some 1)) = 7"
    by (simp add: example_sub_def)
  have c: "remainingSessions (example_sub S_active (Some 1)) = Some 1"
    by (simp add: example_sub_def)
  have m: "[Load 0, Deduct 0, Load 1, Deduct 1] \<in> set (interleave [Load 0, Deduct 0] [Load 1, Deduct 1])"
    by simp
  have r0: "r_result (race_run Map.empty 0 7 [Load 0, Deduct 0, Load 1, Deduct 1]
               (race_init [7 \<mapsto> example_sub S_active (Some 1)])) 0 = Some True"
    by (simp add: race_init_def findById_def example_sub_def deductSession_def save_def
        pre_save_def Let_def)
  from deductSession_race[of "[7 \<mapsto> example_sub S_active (Some 1)]" 7
      "example_sub S_active (Some 1)" Map.empty 0, OF a b c] m
  have "map_option remainingSessions
     (r_subs (race_run Map.empty 0 7 [Load 0, Deduct 0, Load 1, Deduct 1]
                (race_init [7 \<mapsto> example_sub S_active (Some 1)])) 7) = Some (Some 0) \<and>
    r_result (race_run Map.empty 0 7 [Load 0, Deduct 0, Load 1, Deduct 1]
               (race_init [7 \<mapsto> example_sub S_active (Some 1)])) 1 \<noteq> None \<and>
    \<not> (r_result (race_run Map.empty 0 7 [Load 0, Deduct 0, Load 1, Deduct 1]
               (race_init [7 \<mapsto> example_sub S_active (Some 1)])) 0 = Some True \<and>
       r_result (race_run Map.empty 0 7 [Load 0, Deduct 0, Load 1, Deduct 1]
               (race_init [7 \<mapsto> example_sub S_active (Some 1)])) 1 = Some True)"
    by (metis (no_types, lifting) list.inject step.distinct(1) take_Suc_Cons numeral_2_eq_2)
  then show ?thesis using a b c m r0 by auto
qed

section \<open>Properties of cancellation and renewal\<close>

text \<open>
  Claim C8, as stated, fails: the claim takes \<^verbatim>\<open>canBeCancelled\<close> to hold for an active or
  a pending subscription, and the source's \<^verbatim>\<open>canBeCancelled\<close> is false for a pending
  one.
\<close>

theorem canBeCancelled_pending_counterexample:
  "status (example_sub S_pending None) = S_pending \<and>
   \<not> canBeCancelled (example_sub S_pending None)"
  by (simp add: example_sub_def canBeCancelled_def)

text \<open>
  Claim C8, amended. \<^verbatim>\<open>canBeCancelled\<close> holds exactly when the status is active: it
  is false for a pending, a cancelled and an expired subscription alike, and no other
  field of the document (end date, session count, an earlier cancellation) has a part in
  it. The source has no \<^verbatim>\<open>cancelSubscription\<close>, so what a cancellation writes is not
  stated here.
\<close>

theorem canBeCancelled_active_only:
  "(canBeCancelled s \<longleftrightarrow> status s = S_active) \<and>
   (\<not> canBeCancelled s \<longleftrightarrow>
      status s = S_pending \<or> status s = S_cancelled \<or> status s = S_expired) \<and>
   canBeCancelled (s\<lparr>endDate := e, remainingSessions := r, cancelledAt := c,
                      cancelReason := w\<rparr>) = canBeCancelled s"
proof (intro conjI)
  show "canBeCancelled s \<longleftrightarrow> status s = S_active"
    by (simp add: canBeCancelled_def)
  then show "\<not> canBeCancelled s \<longleftrightarrow>
      status s = S_pending \<or> status s = S_cancelled \<or> status s = S_expired"
    by (cases "status s") simp_all
  show "canBeCancelled (s\<lparr>endDate := e, remainingSessions := r, cancelledAt := c,
                      cancelReason := w\<rparr>) = canBeCancelled s"
    by (simp add: canBeCancelled_def)
qed

theorem canBeCancelled_active_only_witness:
  "canBeCancelled (example_sub S_active (Some 4)) \<and>
   \<not> canBeCancelled (example_sub S_pending (Some 4)) \<and>
   \<not> canBeCancelled (example_sub S_cancelled (Some 4)) \<and>
   \<not> canBeCancelled (example_sub S_expired (Some 4))"
  using canBeCancelled_active_only[of "example_sub S_active (Some 4)"]
    canBeCancelled_active_only[of "example_sub S_pending (Some 4)"]
    canBeCancelled_active_only[of "example_sub S_cancelled (Some 4)"]
    canBeCancelled_active_only[of "example_sub S_expired (Some 4)"]
  by (simp add: example_sub_def)

lemma setDate_shift: "setDate t (getDate t + k) = t + k * msPerDay"
  by (simp add: setDate_def getDate_def DateFromTime_def MakeDay_def MakeDate_def
      DayWithinYear_def Day_def TimeWithinDay_def Let_def MonthFromTime_def monthStart_def
      algebra_simps)

lemma setDate_minus_30: "setDate e (getDate e - 30) = e - 30 * msPerDay"
  using setDate_shift[of e "- 30"] by simp

text \<open>
  Claim C9, as stated, fails: \<^verbatim>\<open>canBeRenewed\<close> has no upper bound. For an expired
  subscription that ended on 15 February 2024 it returns true on 1 June 2024, more than
  30 days later.
\<close>

theorem canBeRenewed_late_counterexample:
  "status (example_sub S_expired None) = S_expired \<and>
   endDate (example_sub S_expired None) = Some (utc 2024 1 15) \<and>
   utc 2024 5 1 > utc 2024 1 15 + 30 * msPerDay \<and>
   canBeRenewed (utc 2024 5 1) (example_sub S_expired None) =
     Inr (True, (example_sub S_expired None)\<lparr>endDate := Some (utc 2024 0 16)\<rparr>)"
  by (simp add: canBeRenewed_def setDate_minus_30 example_sub_def utc_def MakeDate_def
      MakeDay_def DayFromYear_def monthStart_def leapYear_def msPerDay_def Let_def)

text \<open>
  Claim C9, amended. For a subscription with an end date, \<^verbatim>\<open>canBeRenewed\<close> returns true
  if and only if the status is active or expired and the current time is strictly later
  than the end date minus 30 days. There is no upper bound: with such a status it returns
  true at every time from the end date on.
\<close>

theorem canBeRenewed_lower_bound_only:
  assumes "endDate s = Some e"
  shows "(\<exists>s'. canBeRenewed now s =
            Inr ((status s = S_active \<or> status s = S_expired) \<and> now > e - 30 * msPerDay, s')) \<and>
         ((status s = S_active \<or> status s = S_expired) \<and> now \<ge> e \<longrightarrow>
            (\<exists>s'. canBeRenewed now s = Inr (True, s')))"
  using assms by (auto simp: canBeRenewed_def setDate_minus_30 Let_def msPerDay_def)

theorem canBeRenewed_lower_bound_only_witness:
  "endDate (example_sub S_active None) = Some (utc 2024 1 15) \<and>
   status (example_sub S_active None) = S_active \<and>
   utc 2024 0 10 \<le> utc 2024 1 15 - 30 * msPerDay \<and>
   (\<exists>s'. canBeRenewed (utc 2024 0 10) (example_sub S_active None) = Inr (False, s')) \<and>
   (\<exists>s'. canBeRenewed (utc 2025 0 10) (example_sub S_active None) = Inr (True, s'))"
proof -
  have e: "endDate (example_sub S_active None) = Some (utc 2024 1 15)"
    by (simp add: example_sub_def)
  have st: "status (example_sub S_active None) = S_active"
    by (simp add: example_sub_def)
  have early: "utc 2024 0 10 \<le> utc 2024 1 15 - 30 * msPerDay"
    by (simp add: utc_def MakeDate_def MakeDay_def DayFromYear_def monthStart_def
        leapYear_def msPerDay_def Let_def)
  have late: "utc 2025 0 10 \<ge> utc 2024 1 15"
    by (simp add: utc_def MakeDate_def MakeDay_def DayFromYear_def monthStart_def
        leapYear_def msPerDay_def Let_def)
  show ?thesis
    using canBeRenewed_lower_bound_only[OF e, of "utc 2024 0 10"]
      canBeRenewed_lower_bound_only[OF e, of "utc 2025 0 10"] e st early late
    by auto
qed

section \<open>Properties of subscription creation\<close>

lemma utc_2024_01_15: "utc 2024 0 15 = 1705276800000"
  by (simp add: utc_def MakeDate_def MakeDay_def DayFromYear_def monthStart_def
      leapYear_def msPerDay_def Let_def)

lemma utc_2024_02_15: "utc 2024 1 15 = 1707955200000"
  by (simp add: utc_def MakeDate_def MakeDay_def DayFromYear_def monthStart_def
      leapYear_def msPerDay_def Let_def)

lemma deductSessions_unlimited:
  "remainingSessions s = None \<Longrightarrow> deductSessions n plans now subs s = Some (s, subs)"
  by (induction n) (simp_all add: deductSession_null)

lemma save_new_without_endDate:
  "isNew s \<Longrightarrow> endDate s = None \<Longrightarrow> save plans now subs changed s = Inl StorageRejected"
  by (simp add: save_def)

lemma save_new_with_endDate:
  "isNew s \<Longrightarrow> endDate s \<noteq> None \<Longrightarrow> subs (sub_id s) = None \<Longrightarrow>
   save plans now subs changed s =
     Inr (s\<lparr>isNew := False\<rparr>, subs(sub_id s \<mapsto> s\<lparr>isNew := False\<rparr>))"
  by (auto simp: save_def pre_save_def)

lemma save_keeps_remainingSessions:
  "save plans now subs changed s = Inr (s', subs') \<Longrightarrow>
   remainingSessions s' = remainingSessions s"
  by (auto simp: save_def pre_save_def split: if_splits option.splits)

text \<open>
  Claim C6, as stated, fails. For a plan of one month with four sessions and a start
  date of 15 January 2024, the controller stores a subscription that is active, not
  pending, has no session count, and ends on the start date.
\<close>

theorem createSubscription_counterexample:
  "duration example_plan = \<lparr>dvalue = 1, dunit = Months\<rparr> \<and>
   maxSessions example_plan = Some 4 \<and>
   d_startDate (body example_req) = Some (utc 2024 0 15) \<and>
   fst (createSubscription True 7 [3 \<mapsto> ''u3''] [1 \<mapsto> example_plan] (utc 2024 0 10)
          Map.empty example_req) =
     Json 201 \<lparr>sub_id = 7, student = 3, plan = 1, startDate = Some (utc 2024 0 15),
                endDate = Some (utc 2024 0 15), status = S_active,
                remainingSessions = None, cancelledAt = None, cancelReason = None,
                isNew = False\<rparr> \<and>
   utc 2024 0 15 \<noteq> utc 2024 1 15"
  by (simp add: example_plan_def example_req_def createSubscription_def
      controller_endDate_def durationType_def Subscription_create_def save_def
      pre_save_def Let_def utc_2024_01_15 utc_2024_02_15)

text \<open>
  Claim C6, amended. Whenever \<^verbatim>\<open>createSubscription\<close> answers 201, the stored
  subscription has status active and the \<open>remainingSessions\<close> of the request body (null
  when the body has none), not the plan's \<open>maxSessions\<close>: the controller always hands
  an end date to \<^verbatim>\<open>create\<close>, so the pre-save hook leaves the document as it is. It
  answers 201 whenever the student profile and the plan exist, the user may act for the
  student, and the library accepts the document under a fresh id.
\<close>

theorem createSubscription_active:
  "(\<forall>s subs'. createSubscription accepted oid students plans now subs req = (Json 201 s, subs') \<longrightarrow>
      status s = S_active \<and>
      remainingSessions s = d_remainingSessions (body req) \<and>
      student s = params_id req \<and>
      endDate s \<noteq> None \<and>
      subs' = subs(oid \<mapsto> s)) \<and>
   (\<forall>u pl p. students (params_id req) = Some u \<and> (user_role req = Student \<longrightarrow> user_id req = u) \<and>
      d_plan (body req) = Some pl \<and> plans pl = Some p \<and> accepted \<and> subs oid = None \<longrightarrow>
      (\<exists>s. createSubscription accepted oid students plans now subs req
             = (Json 201 s, subs(oid \<mapsto> s))))"
proof (intro conjI allI impI)
  fix s subs'
  assume a: "createSubscription accepted oid students plans now subs req = (Json 201 s, subs')"
  then obtain e where
    c: "Subscription_create accepted oid plans now subs
          ((body req)\<lparr>d_student := Some (params_id req), d_endDate := Some e,
                      d_status := Some S_active\<rparr>) = Inr (s, subs')"
    by (auto simp: createSubscription_def Let_def
        split: option.splits if_splits sum.splits prod.splits)
  then have
    "s = \<lparr>sub_id = oid, student = params_id req, plan = the (d_plan (body req)),
            startDate = (case d_startDate (body req) of None \<Rightarrow> Some now | Some t \<Rightarrow> Some t),
            endDate = Some e, status = S_active,
            remainingSessions = d_remainingSessions (body req),
            cancelledAt = d_cancelledAt (body req), cancelReason = d_cancelReason (body req),
            isNew = False\<rparr> \<and> subs' = subs(oid \<mapsto> s)"
    by (auto simp: Subscription_create_def save_def pre_save_def Let_def
        split: option.splits if_splits)
  then show "status s = S_active" "remainingSessions s = d_remainingSessions (body req)"
    "student s = params_id req" "endDate s \<noteq> None" "subs' = subs(oid \<mapsto> s)"
    by simp_all
next
  fix u pl p
  assume "students (params_id req) = Some u \<and> (user_role req = Student \<longrightarrow> user_id req = u) \<and>
      d_plan (body req) = Some pl \<and> plans pl = Some p \<and> accepted \<and> subs oid = None"
  then show "\<exists>s. createSubscription accepted oid students plans now subs req
             = (Json 201 s, subs(oid \<mapsto> s))"
    by (auto simp: createSubscription_def controller_endDate_def durationType_def
        Subscription_create_def save_def pre_save_def Let_def)
qed

theorem createSubscription_active_witness:
  "\<exists>s. createSubscription True 7 [3 \<mapsto> ''u3''] [1 \<mapsto> example_plan] (utc 2024 0 10)
           Map.empty example_req = (Json 201 s, [7 \<mapsto> s]) \<and>
        status s = S_active \<and> remainingSessions s = None \<and> endDate s \<noteq> None"
proof -
  note t = createSubscription_active[of True 7 "[3 \<mapsto> ''u3'']" "[1 \<mapsto> example_plan]"
      "utc 2024 0 10" Map.empty example_req]
  have pre: "[3 \<mapsto> ''u3''] (params_id example_req) = Some ''u3'' \<and>
      (user_role example_req = Student \<longrightarrow> user_id example_req = ''u3'') \<and>
      d_plan (body example_req) = Some 1 \<and> [1 \<mapsto> example_plan] (1::nat) = Some example_plan \<and>
      True \<and> (Map.empty :: nat \<rightharpoonup> subscription) 7 = None"
    by (simp add: example_req_def)
  from t pre obtain s where
    s: "createSubscription True 7 [3 \<mapsto> ''u3''] [1 \<mapsto> example_plan] (utc 2024 0 10)
           Map.empty example_req = (Json 201 s, [7 \<mapsto> s])"
    by blast
  with t have "status s = S_active \<and> remainingSessions s = d_remainingSessions (body example_req) \<and>
      endDate s \<noteq> None"
    by blast
  then have one: "status s = S_active \<and> remainingSessions s = None \<and> endDate s \<noteq> None"
    by (simp add: example_req_def)
  from s one show ?thesis by blast
qed

text \<open>
  Claim C10. The pre-save hook changes \<open>remainingSessions\<close> only on a new document
  without an end date whose plan has a \<open>maxSessions\<close> that is neither null nor 0; in
  every other case it leaves \<open>remainingSessions\<close> as it is. Through \<^verbatim>\<open>save\<close> that
  one case does not arise, since a new document without an end date is refused by
  validation before the hook runs, whatever the plan's \<open>maxSessions\<close>, 0 included: every
  save that succeeds leaves \<open>remainingSessions\<close> as the caller had it, and
  \<^verbatim>\<open>create\<close> without an end date stores nothing. \<^verbatim>\<open>create\<close> with an end date, which
  the library accepts under a fresh id, stores the session count it was given, null by
  default, and every run of \<^verbatim>\<open>deductSession\<close> calls on a document with null succeeds
  without changing the document or the collection.
\<close>

theorem pre_save_remainingSessions:
  "(\<forall>s'. pre_save plans now s = Inr s' \<and>
      \<not> (isNew s \<and> endDate s = None \<and>
         (\<exists>p. plans (plan s) = Some p \<and> truthy (maxSessions p))) \<longrightarrow>
      remainingSessions s' = remainingSessions s) \<and>
   (\<forall>s' subs'. save plans now subs changed s = Inr (s', subs') \<longrightarrow>
      remainingSessions s' = remainingSessions s) \<and>
   (isNew s \<and> endDate s = None \<longrightarrow> save plans now subs changed s = Inl StorageRejected) \<and>
   (d_endDate d = None \<longrightarrow>
      Subscription_create accepted oid plans now csubs d = Inl StorageRejected) \<and>
   (accepted \<and> d_student d \<noteq> None \<and> d_plan d \<noteq> None \<and> d_endDate d \<noteq> None \<and>
    csubs oid = None \<longrightarrow>
      (\<exists>c. Subscription_create accepted oid plans now csubs d = Inr (c, csubs(oid \<mapsto> c)) \<and>
         remainingSessions c = d_remainingSessions d)) \<and>
   (remainingSessions s = None \<longrightarrow>
      (\<forall>n now' subs'. deductSessions n plans now' subs' s = Some (s, subs')))"
proof (intro conjI allI impI)
  fix s'
  assume "pre_save plans now s = Inr s' \<and>
      \<not> (isNew s \<and> endDate s = None \<and>
         (\<exists>p. plans (plan s) = Some p \<and> truthy (maxSessions p)))"
  then show "remainingSessions s' = remainingSessions s"
    by (auto simp: pre_save_def Let_def split: if_splits option.splits)
next
  fix s' subs'
  assume "save plans now subs changed s = Inr (s', subs')"
  then show "remainingSessions s' = remainingSessions s"
    by (rule save_keeps_remainingSessions)
next
  assume "isNew s \<and> endDate s = None"
  then show "save plans now subs changed s = Inl StorageRejected"
    by (simp add: save_new_without_endDate)
next
  assume "d_endDate d = None"
  then show "Subscription_create accepted oid plans now csubs d = Inl StorageRejected"
    by (simp add: Subscription_create_def save_new_without_endDate split: option.splits)
next
  assume a: "accepted \<and> d_student d \<noteq> None \<and> d_plan d \<noteq> None \<and> d_endDate d \<noteq> None \<and>
    csubs oid = None"
  then obtain st pl where sp: "d_student d = Some st" "d_plan d = Some pl"
    by auto
  let ?n = "\<lparr>sub_id = oid, student = st, plan = pl,
           startDate = (case d_startDate d of None \<Rightarrow> Some now | Some t \<Rightarrow> Some t),
           endDate = d_endDate d,
           status = (case d_status d of None \<Rightarrow> S_pending | Some x \<Rightarrow> x),
           remainingSessions = d_remainingSessions d,
           cancelledAt = d_cancelledAt d, cancelReason = d_cancelReason d,
           isNew = True\<rparr>"
  have n: "isNew ?n" "endDate ?n \<noteq> None" "csubs (sub_id ?n) = None"
    using a by simp_all
  have "Subscription_create accepted oid plans now csubs d = save plans now csubs (\<lambda>x. x) ?n"
    using a sp by (simp add: Subscription_create_def)
  also have "\<dots> = Inr (?n\<lparr>isNew := False\<rparr>, csubs(sub_id ?n \<mapsto> ?n\<lparr>isNew := False\<rparr>))"
    using n by (rule save_new_with_endDate)
  finally have "Subscription_create accepted oid plans now csubs d =
      Inr (?n\<lparr>isNew := False\<rparr>, csubs(oid \<mapsto> ?n\<lparr>isNew := False\<rparr>))"
    by simp
  moreover have "remainingSessions (?n\<lparr>isNew := False\<rparr>) = d_remainingSessions d"
    by simp
  ultimately show "\<exists>c. Subscription_create accepted oid plans now csubs d
        = Inr (c, csubs(oid \<mapsto> c)) \<and>
      remainingSessions c = d_remainingSessions d"
    by blast
next
  fix n now' subs'
  assume "remainingSessions s = None"
  then show "deductSessions n plans now' subs' s = Some (s, subs')"
    by (rule deductSessions_unlimited)
qed

theorem pre_save_remainingSessions_witness:
  "d_endDate (body example_req) = None \<and>
   maxSessions (example_plan\<lparr>maxSessions := Some 0\<rparr>) = Some 0 \<and>
   Subscription_create True 7 [1 \<mapsto> example_plan\<lparr>maxSessions := Some 0\<rparr>] 0 Map.empty
     ((body example_req)\<lparr>d_student := Some 3\<rparr>) = Inl StorageRejected \<and>
   maxSessions example_plan = Some 4 \<and>
   d_remainingSessions (body example_req) = None \<and>
   (\<exists>c. Subscription_create True 7 [1 \<mapsto> example_plan] 0 Map.empty
          ((body example_req)\<lparr>d_student := Some 3, d_endDate := Some (utc 2024 1 15)\<rparr>)
            = Inr (c, [7 \<mapsto> c]) \<and>
        remainingSessions c = None \<and>
        deductSessions 3 [1 \<mapsto> example_plan] 0 [7 \<mapsto> c] c = Some (c, [7 \<mapsto> c]))"
proof -
  let ?d0 = "(body example_req)\<lparr>d_student := Some 3\<rparr>"
  let ?d1 = "(body example_req)\<lparr>d_student := Some 3, d_endDate := Some (utc 2024 1 15)\<rparr>"
  have b: "d_endDate (body example_req) = None" "d_remainingSessions (body example_req) = None"
    by (simp_all add: example_req_def)
  have m: "maxSessions (example_plan\<lparr>maxSessions := Some 0\<rparr>) = Some 0"
    "maxSessions example_plan = Some 4"
    by (simp_all add: example_plan_def)
  have d0: "d_endDate ?d0 = None"
    by (simp add: example_req_def)
  have d1: "True \<and> d_student ?d1 \<noteq> None \<and> d_plan ?d1 \<noteq> None \<and> d_endDate ?d1 \<noteq> None \<and>
      (Map.empty :: nat \<rightharpoonup> subscription) 7 = None"
    "d_remainingSessions ?d1 = None"
    by (simp_all add: example_req_def)
  from pre_save_remainingSessions[where d="?d0" and accepted=True and oid=7
      and plans="[1 \<mapsto> example_plan\<lparr>maxSessions := Some 0\<rparr>]" and now=0
      and csubs=Map.empty] d0
  have one: "Subscription_create True 7 [1 \<mapsto> example_plan\<lparr>maxSessions := Some 0\<rparr>] 0
      Map.empty ?d0 = Inl StorageRejected"
    by blast
  from pre_save_remainingSessions[where d="?d1" and accepted=True and oid=7
      and plans="[1 \<mapsto> example_plan]" and now=0 and csubs=Map.empty] d1
  obtain c where c: "Subscription_create True 7 [1 \<mapsto> example_plan] 0 Map.empty ?d1
      = Inr (c, [7 \<mapsto> c])" "remainingSessions c = None"
    by metis
  from pre_save_remainingSessions[where s=c and plans="[1 \<mapsto> example_plan]"] c(2)
  have "deductSessions 3 [1 \<mapsto> example_plan] 0 [7 \<mapsto> c] c = Some (c, [7 \<mapsto> c])"
    by blast
  with c have two: "\<exists>c. Subscription_create True 7 [1 \<mapsto> example_plan] 0 Map.empty ?d1
            = Inr (c, [7 \<mapsto> c]) \<and>
        remainingSessions c = None \<and>
        deductSessions 3 [1 \<mapsto> example_plan] 0 [7 \<mapsto> c] c = Some (c, [7 \<mapsto> c])"
    by blast
  from b m one two show ?thesis by blast
qed

section \<open>Properties of refunds\<close>

lemma Transaction_create_needs_id:
  "x_transactionId d = None \<Longrightarrow> Transaction_create accepted ts rnd ledger d = Inl StorageRejected"
  by (simp add: Transaction_create_def split: option.splits)

lemma processRefund_cases:
  "processRefund accepted ts rnd ledger tid amount reason =
     (case findOne ledger tid of
        None \<Rightarrow> Inl TransactionNotFound
      | Some (i, orig) \<Rightarrow>
          if t_status orig \<noteq> T_completed then Inl OnlyCompletedCanBeRefunded
          else if refundAmount amount orig > t_amount orig then Inl RefundExceedsOriginal
          else Inl StorageRejected)"
  by (simp add: processRefund_def Transaction_create_needs_id split: option.splits prod.splits)

lemma processRefund_throws:
  "processRefund accepted ts rnd ledger tid amount reason \<noteq> Inr x"
  by (simp add: processRefund_cases split: option.splits prod.splits)


lemma findOne_example:
  "findOne [example_payment st] ''TRX-1'' = Some (0, example_payment st)"
  by (simp add: findOne_def example_payment_def)



text \<open>
  Claim C5, as stated, fails at \<open>amount = 0\<close>: the source reads
  \<^verbatim>\<open>amount || originalTransaction.amount\<close>, which takes 0 for absent. For a completed
  payment of 100 and \<open>amount = 0\<close> the refund amount is 100, not 0. For a completed
  adjustment of -5 and \<open>amount = 0\<close> the refund amount is -5: the 0 the claim takes for
  the refund amount exceeds the original's -5, and yet the call is not refused with
  "Refund amount cannot exceed the original transaction amount"; it passes that test
  and is refused by \<^verbatim>\<open>create\<close>.
\<close>

theorem processRefund_zero_counterexample:
  "t_amount (example_payment T_completed) = 100 \<and>
   refundAmount (Some 0) (example_payment T_completed) = 100 \<and>
   t_status example_adjustment = T_completed \<and>
   t_amount example_adjustment = - 5 \<and>
   refundAmount (Some 0) example_adjustment = - 5 \<and>
   processRefund True 1700000000000 42 [example_adjustment] ''TRX-3'' (Some 0) None
     = Inl StorageRejected"
  by (simp add: refundAmount_def example_payment_def example_adjustment_def
      processRefund_cases findOne_def)

text \<open>
  Claim C5, amended. The refund amount is \<open>amount\<close> when that is given and not 0, and
  the original's amount when \<open>amount\<close> is absent or 0. The call throws "Refund amount
  cannot exceed the original transaction amount" exactly when it finds a completed
  original whose amount that refund amount exceeds, and it creates no transaction row
  then, as no call of \<^verbatim>\<open>processRefund\<close> does.
\<close>

theorem processRefund_amount:
  "(\<forall>a. a \<noteq> 0 \<longrightarrow> refundAmount (Some a) orig = a) \<and>
   refundAmount (Some 0) orig = t_amount orig \<and>
   refundAmount None orig = t_amount orig \<and>
   (processRefund accepted ts rnd ledger tid amount reason = Inl RefundExceedsOriginal \<longleftrightarrow>
      (\<exists>i t. findOne ledger tid = Some (i, t) \<and> t_status t = T_completed \<and>
         refundAmount amount t > t_amount t)) \<and>
   (\<forall>r ledger'. processRefund accepted ts rnd ledger tid amount reason \<noteq> Inr (r, ledger'))"
proof (intro conjI allI impI)
  fix a :: int
  assume "a \<noteq> 0"
  then show "refundAmount (Some a) orig = a"
    by (simp add: refundAmount_def)
next
  show "refundAmount (Some 0) orig = t_amount orig"
    by (simp add: refundAmount_def)
next
  show "refundAmount None orig = t_amount orig"
    by (simp add: refundAmount_def)
next
  show "processRefund accepted ts rnd ledger tid amount reason = Inl RefundExceedsOriginal \<longleftrightarrow>
      (\<exists>i t. findOne ledger tid = Some (i, t) \<and> t_status t = T_completed \<and>
         refundAmount amount t > t_amount t)"
    by (cases "findOne ledger tid") (auto simp: processRefund_cases split: if_splits)
next
  fix r ledger'
  show "processRefund accepted ts rnd ledger tid amount reason \<noteq> Inr (r, ledger')"
    by (rule processRefund_throws)
qed

theorem processRefund_amount_witness:
  "t_status (example_payment T_completed) = T_completed \<and>
   t_amount (example_payment T_completed) = 100 \<and>
   refundAmount (Some 130) (example_payment T_completed) = 130 \<and>
   processRefund True 1700000000000 42 [example_payment T_completed] ''TRX-1'' (Some 130) None
     = Inl RefundExceedsOriginal \<and>
   refundAmount (Some 30) (example_payment T_completed) = 30 \<and>
   processRefund True 1700000000000 42 [example_payment T_completed] ''TRX-1'' (Some 30) None
     \<noteq> Inl RefundExceedsOriginal"
proof -
  have st: "t_status (example_payment T_completed) = T_completed"
    by (simp add: example_payment_def)
  have am: "t_amount (example_payment T_completed) = 100"
    by (simp add: example_payment_def)
  note t130 = processRefund_amount[of "example_payment T_completed" True 1700000000000 42
      "[example_payment T_completed]" "''TRX-1''" "Some 130" None]
  note t30 = processRefund_amount[of "example_payment T_completed" True 1700000000000 42
      "[example_payment T_completed]" "''TRX-1''" "Some 30" None]
  from t130 have a: "refundAmount (Some 130) (example_payment T_completed) = 130"
    by simp
  from t30 have b: "refundAmount (Some 30) (example_payment T_completed) = 30"
    by simp
  from t130 findOne_example[of T_completed] st am a
  have c: "processRefund True 1700000000000 42 [example_payment T_completed] ''TRX-1''
      (Some 130) None = Inl RefundExceedsOriginal"
    by simp
  from t30 findOne_example[of T_completed] st am b
  have d: "processRefund True 1700000000000 42 [example_payment T_completed] ''TRX-1''
      (Some 30) None \<noteq> Inl RefundExceedsOriginal"
    by simp
  from st am a b c d show ?thesis by blast
qed

section \<open>Properties of recording a payment\<close>

lemma Transaction_create_price:
  "x_amount d = Some (PriceObject p) \<Longrightarrow>
   Transaction_create accepted ts rnd ledger d = Inl StorageRejected"
  by (simp add: Transaction_create_def castNumber_def split: option.splits)

text \<open>
  Claim C7 does not hold of the source, by a slip in it. \<^verbatim>\<open>createTransaction\<close> puts
  the plan's price object, not its amount, into the new row's \<open>amount\<close>; the library's
  cast to a number refuses it, \<^verbatim>\<open>create\<close> throws, and the handler leaves through
  \<^verbatim>\<open>next(error)\<close> before its status test. So no request is answered 201, every request
  leaves the subscriptions and the transactions as they were, and a request that gets as
  far as \<^verbatim>\<open>create\<close> (the subscription is stored, the user is not a student, the plan
  exists) is answered with the library's error: no payment is recorded and a pending
  subscription stays pending.
\<close>

theorem createTransaction_records_nothing:
  "(\<forall>t. fst (createTransaction accepted ts rnd owner plans now subs ledger req) \<noteq> Json 201 t) \<and>
   snd (createTransaction accepted ts rnd owner plans now subs ledger req) = (subs, ledger) \<and>
   (\<forall>s p. findById subs (params_id req) = Some s \<and> user_role req \<noteq> Student \<and>
      plans (plan s) = Some p \<longrightarrow>
      createTransaction accepted ts rnd owner plans now subs ledger req
        = (Next StorageRejected, subs, ledger))"
proof (intro conjI allI impI)
  fix t
  show "fst (createTransaction accepted ts rnd owner plans now subs ledger req) \<noteq> Json 201 t"
    by (simp add: createTransaction_def Transaction_create_price
        split: option.splits sum.splits bool.splits)
next
  show "snd (createTransaction accepted ts rnd owner plans now subs ledger req) = (subs, ledger)"
    by (simp add: createTransaction_def Transaction_create_price
        split: option.splits sum.splits bool.splits)
next
  fix s p
  assume "findById subs (params_id req) = Some s \<and> user_role req \<noteq> Student \<and>
      plans (plan s) = Some p"
  then show "createTransaction accepted ts rnd owner plans now subs ledger req
        = (Next StorageRejected, subs, ledger)"
    by (simp add: createTransaction_def Transaction_create_price)
qed

theorem createTransaction_records_nothing_witness:
  "findById [7 \<mapsto> example_sub S_pending (Some 3)] (params_id example_txn_req)
     = Some (example_sub S_pending (Some 3)) \<and>
   user_role example_txn_req \<noteq> Student \<and>
   [1 \<mapsto> example_plan] (plan (example_sub S_pending (Some 3))) = Some example_plan \<and>
   price example_plan = \<lparr>p_amount = 100, p_currency = ''USD''\<rparr> \<and>
   createTransaction True 1700000000000 42 (\<lambda>s. None) [1 \<mapsto> example_plan] 0
       [7 \<mapsto> example_sub S_pending (Some 3)] [] example_txn_req
     = (Next StorageRejected, [7 \<mapsto> example_sub S_pending (Some 3)], []) \<and>
   status (example_sub S_pending (Some 3)) = S_pending"
proof -
  have f: "findById [7 \<mapsto> example_sub S_pending (Some 3)] (params_id example_txn_req)
     = Some (example_sub S_pending (Some 3))"
    by (simp add: findById_def example_txn_req_def example_sub_def)
  have u: "user_role example_txn_req \<noteq> Student"
    by (simp add: example_txn_req_def)
  have p: "[1 \<mapsto> example_plan] (plan (example_sub S_pending (Some 3))) = Some example_plan"
    by (simp add: example_sub_def)
  have pr: "price example_plan = \<lparr>p_amount = 100, p_currency = ''USD''\<rparr>"
    by (simp add: example_plan_def)
  have st: "status (example_sub S_pending (Some 3)) = S_pending"
    by (simp add: example_sub_def)
  from createTransaction_records_nothing[of True 1700000000000 42 "\<lambda>s. None"
      "[1 \<mapsto> example_plan]" 0 "[7 \<mapsto> example_sub S_pending (Some 3)]" "[]" example_txn_req]
    f u p
  have r: "createTransaction True 1700000000000 42 (\<lambda>s. None) [1 \<mapsto> example_plan] 0
       [7 \<mapsto> example_sub S_pending (Some 3)] [] example_txn_req
     = (Next StorageRejected, [7 \<mapsto> example_sub S_pending (Some 3)], [])"
    by blast
  from f u p pr st r show ?thesis by blast
qed

end
